theory Spec2Isabelle
  imports Main
begin

section \<open>Shared: Python exceptions and string helpers\<close>

text \<open>
  Exceptions are values. \<open>KeyError k\<close> is a dictionary lookup of the missing key \<open>k\<close>,
  \<open>IndexError\<close> an out-of-range list index, \<open>ValueError\<close> what pandas raises on a column
  of the wrong length, and \<open>Raised s\<close> any exception coming out of a library or remote
  call that the scripts do not distinguish.
\<close>

datatype error = KeyError string | IndexError | ValueError | Raised string

text \<open>\<^verbatim>\<open>s.startswith(p)\<close> and \<^verbatim>\<open>s.endswith(p)\<close> (case-sensitive, as in Python).\<close>

definition startswith :: "string \<Rightarrow> string \<Rightarrow> bool" where
  "startswith s p = (take (length p) s = p)"

definition endswith :: "string \<Rightarrow> string \<Rightarrow> bool" where
  "endswith s p = (length p \<le> length s \<and> drop (length s - length p) s = p)"

text \<open>\<^verbatim>\<open>os.path.join(a, b)\<close> on POSIX: an absolute \<open>b\<close> replaces \<open>a\<close>.\<close>

definition path_join :: "string \<Rightarrow> string \<Rightarrow> string" where
  "path_join a b =
     (if startswith b ''/'' then b
      else if a = [] \<or> endswith a ''/'' then a @ b
      else a @ ''/'' @ b)"

section \<open>score_sample.py: the batch scorer\<close>

subsection \<open>Dataframes\<close>

text \<open>
  A dataframe is its header and its rows, each row aligned with the header. The three
  pandas operations the script uses are modelled: column assignment
  \<^verbatim>\<open>df[name] = values\<close>, \<^verbatim>\<open>pd.concat(frames, ignore_index=True)\<close> and the row
  count.
\<close>

datatype cell = NaN | Num int | Str string

record dataframe =
  columns :: "string list"
  rows :: "cell list list"

text \<open>The cell of a row under a column name (the first column of that name).\<close>

definition cell_at :: "string list \<Rightarrow> cell list \<Rightarrow> string \<Rightarrow> cell option" where
  "cell_at cols row c = map_of (zip cols row) c"

fun index_of :: "'a \<Rightarrow> 'a list \<Rightarrow> nat option" where
  "index_of x [] = None"
| "index_of x (y # ys) =
     (if x = y then Some 0 else map_option Suc (index_of x ys))"

text \<open>
  Storing a column whose length fits: an existing column of that name is overwritten in
  place, a new name is appended as the last column.
\<close>

definition with_column :: "dataframe \<Rightarrow> string \<Rightarrow> cell list \<Rightarrow> dataframe" where
  "with_column df name vals =
     (case index_of name (columns df) of
        Some i \<Rightarrow> \<lparr>columns = columns df,
                   rows = map (\<lambda>(r, v). r[i := v]) (zip (rows df) vals)\<rparr>
      | None \<Rightarrow> \<lparr>columns = columns df @ [name],
                 rows = map (\<lambda>(r, v). r @ [v]) (zip (rows df) vals)\<rparr>)"

text \<open>
  \<^verbatim>\<open>df[name] = vals\<close>. A frame without rows takes its index from a non-empty value (the
  other columns are filled with NaN); otherwise a value of the wrong length raises
  ValueError.
\<close>

definition set_column :: "dataframe \<Rightarrow> string \<Rightarrow> cell list \<Rightarrow> error + dataframe" where
  "set_column df name vals =
     (if rows df = [] \<and> vals \<noteq> [] then
        Inr (with_column
               \<lparr>columns = columns df,
                rows = map (\<lambda>_. map (\<lambda>_. NaN) (columns df)) vals\<rparr> name vals)
      else if length vals \<noteq> length (rows df) then Inl ValueError
      else Inr (with_column df name vals))"

text \<open>The header of a concatenation: every column name, in order of first appearance.\<close>

definition union_columns :: "string list list \<Rightarrow> string list" where
  "union_columns css = rev (remdups (rev (concat css)))"

text \<open>A frame's rows under another header; a column the frame lacks is NaN.\<close>

definition reindex :: "string list \<Rightarrow> dataframe \<Rightarrow> cell list list" where
  "reindex cols df =
     map (\<lambda>r. map (\<lambda>c. case cell_at (columns df) r c of Some v \<Rightarrow> v | None \<Rightarrow> NaN) cols)
         (rows df)"

text \<open>
  \<^verbatim>\<open>pd.concat(frames, ignore_index=True)\<close>: the rows of the frames one after the other,
  in the order of the list, under the union of the headers. An empty list raises
  ValueError.
\<close>

definition concat_frames :: "dataframe list \<Rightarrow> dataframe" where
  "concat_frames dfs =
     (let cols = union_columns (map columns dfs)
      in \<lparr>columns = cols, rows = concat (map (reindex cols) dfs)\<rparr>)"

definition pd_concat :: "dataframe list \<Rightarrow> error + dataframe" where
  "pd_concat dfs = (if dfs = [] then Inl ValueError else Inr (concat_frames dfs))"

subsection \<open>The world of the scorer and what it does to it\<close>

text \<open>
  The model loader, the file system and the CSV reader and writer are outside the
  script: each is a function of the world, and each may raise. A loaded model is its
  \<^verbatim>\<open>predict\<close>.
\<close>

type_synonym sk_model = "dataframe \<Rightarrow> error + cell list"

record scorer_world =
  mlflow_load_model :: "string \<Rightarrow> error + sk_model"
  os_path_isdir :: "string \<Rightarrow> bool"
  os_listdir :: "string \<Rightarrow> error + string list"
  pd_read_csv :: "string \<Rightarrow> error + dataframe"
  os_makedirs :: "string \<Rightarrow> error option"
  df_to_csv :: "string \<Rightarrow> dataframe \<Rightarrow> error option"

record args =
  input_data :: string
  output_data :: string
  model_path :: string

text \<open>
  The lines the script prints, one constructor per \<^verbatim>\<open>print\<close>:
  \<open>NoResultsToSave\<close> is the warning \<^verbatim>\<open>No results to save\<close>.
\<close>

datatype scorer_msg =
    InputPath string
  | Output string
  | ModelPath string
  | ModelLoaded
  | Processing string
  | ResultsSaved string
  | NoResultsToSave

text \<open>What a run does, in order: each event is a call the script makes.\<close>

datatype scorer_event =
    SPrint scorer_msg
  | LoadModel string
  | ListDir string
  | ReadCsv string
  | Predict dataframe
  | MakeDirs string
  | WriteCsv string dataframe

text \<open>Lines 29 to 32: the input files.\<close>

definition get_input_files ::
  "scorer_world \<Rightarrow> string \<Rightarrow> scorer_event list \<Rightarrow> (error + string list) \<times> scorer_event list" where
  "get_input_files w inp tr =
     (if os_path_isdir w inp then
        (case os_listdir w inp of
           Inl e \<Rightarrow> (Inl e, tr @ [ListDir inp])
         | Inr names \<Rightarrow>
             (Inr (map (path_join inp) (filter (\<lambda>f. endswith f ''.csv'') names)),
              tr @ [ListDir inp]))
      else (Inr [inp], tr))"

text \<open>Lines 36 to 46: the loop over the files, \<open>results\<close> being the list it appends to.\<close>

fun process_files ::
  "scorer_world \<Rightarrow> sk_model \<Rightarrow> string list \<Rightarrow> dataframe list \<Rightarrow> scorer_event list
     \<Rightarrow> (error + dataframe list) \<times> scorer_event list" where
  "process_files w model [] results tr = (Inr results, tr)"
| "process_files w model (file # files) results tr =
     (case pd_read_csv w file of
        Inl e \<Rightarrow> (Inl e, tr @ [SPrint (Processing file), ReadCsv file])
      | Inr df \<Rightarrow>
          (case model df of
             Inl e \<Rightarrow> (Inl e, tr @ [SPrint (Processing file), ReadCsv file, Predict df])
           | Inr predictions \<Rightarrow>
               (case set_column df ''prediction'' predictions of
                  Inl e \<Rightarrow> (Inl e, tr @ [SPrint (Processing file), ReadCsv file, Predict df])
                | Inr df' \<Rightarrow>
                    process_files w model files (results @ [df'])
                      (tr @ [SPrint (Processing file), ReadCsv file, Predict df]))))"

text \<open>Lines 49 to 56: saving.\<close>

definition save_results ::
  "scorer_world \<Rightarrow> args \<Rightarrow> dataframe list \<Rightarrow> scorer_event list
     \<Rightarrow> (error + unit) \<times> scorer_event list" where
  "save_results w a results tr =
     (if results \<noteq> [] then
        (case pd_concat results of
           Inl e \<Rightarrow> (Inl e, tr)
         | Inr final_df \<Rightarrow>
             (case os_makedirs w (output_data a) of
                Some e \<Rightarrow> (Inl e, tr @ [MakeDirs (output_data a)])
              | None \<Rightarrow>
                  (let output_file = path_join (output_data a) ''scored_results.csv''
                   in case df_to_csv w output_file final_df of
                        Some e \<Rightarrow>
                          (Inl e, tr @ [MakeDirs (output_data a), WriteCsv output_file final_df])
                      | None \<Rightarrow>
                          (Inr (), tr @ [MakeDirs (output_data a),
                                         WriteCsv output_file final_df,
                                         SPrint (ResultsSaved output_file)]))))
      else (Inr (), tr @ [SPrint NoResultsToSave]))"

text \<open>\<^verbatim>\<open>main()\<close> of score_sample.py, on parsed arguments.\<close>

definition main_score :: "scorer_world \<Rightarrow> args \<Rightarrow> (error + unit) \<times> scorer_event list" where
  "main_score w a =
     (let tr0 = [SPrint (InputPath (input_data a)), SPrint (Output (output_data a)),
                 SPrint (ModelPath (model_path a)), LoadModel (model_path a)]
      in case mlflow_load_model w (model_path a) of
           Inl e \<Rightarrow> (Inl e, tr0)
         | Inr model \<Rightarrow>
             (case get_input_files w (input_data a) (tr0 @ [SPrint ModelLoaded]) of
                (Inl e, tr1) \<Rightarrow> (Inl e, tr1)
              | (Inr files, tr1) \<Rightarrow>
                  (case process_files w model files [] tr1 of
                     (Inl e, tr2) \<Rightarrow> (Inl e, tr2)
                   | (Inr results, tr2) \<Rightarrow> save_results w a results tr2)))"

text \<open>Reading a trace: the files read, the files written, the directories made.\<close>

fun reads_of :: "scorer_event list \<Rightarrow> string list" where
  "reads_of [] = []"
| "reads_of (ReadCsv p # es) = p # reads_of es"
| "reads_of (_ # es) = reads_of es"

fun writes_of :: "scorer_event list \<Rightarrow> (string \<times> dataframe) list" where
  "writes_of [] = []"
| "writes_of (WriteCsv p d # es) = (p, d) # writes_of es"
| "writes_of (_ # es) = writes_of es"

fun makedirs_of :: "scorer_event list \<Rightarrow> string list" where
  "makedirs_of [] = []"
| "makedirs_of (MakeDirs p # es) = p # makedirs_of es"
| "makedirs_of (_ # es) = makedirs_of es"

fun processed_of :: "scorer_event list \<Rightarrow> string list" where
  "processed_of [] = []"
| "processed_of (SPrint (Processing p) # es) = p # processed_of es"
| "processed_of (_ # es) = processed_of es"

text \<open>
  What the loop appends for frames \<open>dfs\<close> whose predictions are \<open>pss\<close>: each frame with
  its \<^verbatim>\<open>prediction\<close> column stored.
\<close>

definition scored_frames :: "dataframe list \<Rightarrow> cell list list \<Rightarrow> dataframe list" where
  "scored_frames dfs pss = map (\<lambda>(df, ps). with_column df ''prediction'' ps) (zip dfs pss)"

subsection \<open>A world to run the scorer in\<close>

text \<open>
  A model that predicts, for each row, the number of its cells; a directory \<^verbatim>\<open>in\<close> with
  two CSV files among other names, a directory \<^verbatim>\<open>empty\<close> without any, a directory
  \<^verbatim>\<open>rescored\<close> whose one file already has a \<^verbatim>\<open>prediction\<close> column, and a plain file
  \<^verbatim>\<open>data.txt\<close>.
\<close>

definition example_model :: sk_model where
  "example_model df = Inr (map (\<lambda>r. Num (int (length r))) (rows df))"

definition example_frame_a :: dataframe where
  "example_frame_a = \<lparr>columns = [''x'', ''y''], rows = [[Num 1, Num 2], [Num 3, Num 4]]\<rparr>"

definition example_frame_b :: dataframe where
  "example_frame_b =
     \<lparr>columns = [''x'', ''z''], rows = [[Num 5, Str ''u''], [Num 6, Str ''v'']]\<rparr>"

definition example_world :: scorer_world where
  "example_world =
     \<lparr>mlflow_load_model =
        (\<lambda>p. if p = ''model'' then Inr example_model else Inl (Raised ''no model'')),
      os_path_isdir = (\<lambda>p. p = ''in'' \<or> p = ''empty'' \<or> p = ''rescored''),
      os_listdir =
        (\<lambda>p. if p = ''in'' then Inr [''b.csv'', ''notes.txt'', ''a.csv'', ''C.CSV'']
             else if p = ''empty'' then Inr [''notes.txt'', ''C.CSV'']
             else if p = ''rescored'' then Inr [''old.csv'']
             else Inl (Raised ''not a directory'')),
      pd_read_csv =
        (\<lambda>p. if p = ''in/a.csv'' then Inr example_frame_a
             else if p = ''in/b.csv'' then Inr example_frame_b
             else if p = ''data.txt'' then Inr \<lparr>columns = [''x''], rows = [[Num 9]]\<rparr>
             else if p = ''rescored/old.csv''
               then Inr \<lparr>columns = [''x'', ''prediction''], rows = [[Num 1, Num 0]]\<rparr>
             else Inl (Raised ''no such file'')),
      os_makedirs = (\<lambda>_. None),
      df_to_csv = (\<lambda>_ _. None)\<rparr>"

definition example_args :: "string \<Rightarrow> args" where
  "example_args inp = \<lparr>input_data = inp, output_data = ''out'', model_path = ''model''\<rparr>"

section \<open>register_assets_sample.py: the asset registrar\<close>

subsection \<open>Resources\<close>

type_synonym config = "string \<rightharpoonup> string"


record build_context =
  build_path :: string
  dockerfile_path :: string

record environment =
  env_name :: string
  env_version :: "string option"
  env_description :: "string option"
  env_build :: "build_context option"

record component =
  comp_name :: string
  comp_version :: "string option"

record data_asset =
  data_name :: string
  data_id :: string

datatype asset_type = URI_FILE | MLFLOW_MODEL

record pipeline_input =
  input_type :: asset_type
  input_path :: string

text \<open>The training pipeline as submitted (lines 73 to 85).\<close>

record training_pipeline =
  tp_name :: string
  tp_default_compute :: string
  tp_train_component :: component
  tp_training_data :: pipeline_input

record job =
  job_name :: string
  display_name :: string
  status :: string
  studio_url :: string

text \<open>\<^verbatim>\<open>Model(path=..., name=..., type=...)\<close> and the registered model that comes back.\<close>

record model_spec =
  model_spec_path :: string
  model_spec_name :: string
  model_spec_type :: asset_type

record model =
  model_name :: string
  model_version :: string
  model_id :: string

text \<open>The scoring pipeline's component (lines 106 to 112, built at line 126).\<close>

record scoring_pipeline =
  sp_name :: string
  sp_default_compute :: string
  sp_score_component :: component
  sp_model_path :: string

record batch_endpoint =
  endpoint_name :: string
  defaults_deployment_name :: "string option"

record batch_deployment =
  deployment_name :: string
  deployment_endpoint_name :: string
  deployment_component :: component
  continue_on_step_failure :: bool
  deployment_default_compute :: string

subsection \<open>Remote calls, printed lines, and the platform\<close>

datatype call =
    EnvironmentsGet string string
  | EnvironmentsCreateOrUpdate environment
  | ComponentsGet string "string option"
  | ComponentsCreateOrUpdate component
  | DataGet string string
  | JobsCreateOrUpdate training_pipeline
  | JobsStream string
  | JobsList string
  | ModelsCreateOrUpdate model_spec
  | BatchEndpointsGet string
  | BatchEndpointsCreateOrUpdate batch_endpoint
  | PipelineComponentsCreateOrUpdate scoring_pipeline
  | BatchDeploymentsCreateOrUpdate batch_deployment

datatype reg_msg =
    MsgEnvironment string "string option"
  | MsgComponent string "string option"
  | MsgData string
  | MsgTrainingJobSubmitted string
  | MsgStreamResult
  | MsgTrainingFailed string
  | MsgModel string string
  | MsgEndpoint string
  | MsgDeployment string

datatype reg_event = RPrint reg_msg | Remote call

text \<open>
  The workspace is remote and has a state of its own (\<open>'s\<close>): each operation of the
  client answers from the state and changes it, or raises. The two local readers (the
  JSON configuration file and the YAML component definitions) do not touch it.
\<close>

record 's platform =
  read_json :: "string \<Rightarrow> error + config"
  load_component :: "string \<Rightarrow> error + component"
  environments_get :: "string \<Rightarrow> string \<Rightarrow> 's \<Rightarrow> (error + environment) \<times> 's"
  environments_create_or_update :: "environment \<Rightarrow> 's \<Rightarrow> (error + environment) \<times> 's"
  components_get :: "string \<Rightarrow> string option \<Rightarrow> 's \<Rightarrow> (error + component) \<times> 's"
  components_create_or_update :: "component \<Rightarrow> 's \<Rightarrow> (error + component) \<times> 's"
  data_get :: "string \<Rightarrow> string \<Rightarrow> 's \<Rightarrow> (error + data_asset) \<times> 's"
  jobs_create_or_update :: "training_pipeline \<Rightarrow> 's \<Rightarrow> (error + job) \<times> 's"
  jobs_stream :: "string \<Rightarrow> 's \<Rightarrow> (error + unit) \<times> 's"
  jobs_list :: "string \<Rightarrow> 's \<Rightarrow> (error + job list) \<times> 's"
  models_create_or_update :: "model_spec \<Rightarrow> 's \<Rightarrow> (error + model) \<times> 's"
  batch_endpoints_get :: "string \<Rightarrow> 's \<Rightarrow> (error + batch_endpoint) \<times> 's"
  batch_endpoints_begin_create_or_update :: "batch_endpoint \<Rightarrow> 's \<Rightarrow> (error + unit) \<times> 's"
  pipeline_components_create_or_update ::
    "scoring_pipeline \<Rightarrow> 's \<Rightarrow> (error + component) \<times> 's"
  batch_deployments_begin_create_or_update ::
    "batch_deployment \<Rightarrow> 's \<Rightarrow> (error + unit) \<times> 's"

subsection \<open>Sequencing: a run threads the workspace state and the trace\<close>

type_synonym ('s, 'a) prog = "'s \<times> reg_event list \<Rightarrow> (error + 'a) \<times> ('s \<times> reg_event list)"

definition ret :: "'a \<Rightarrow> ('s, 'a) prog" where
  "ret x = (\<lambda>st. (Inr x, st))"

definition local_call :: "error + 'a \<Rightarrow> ('s, 'a) prog" where
  "local_call r = (\<lambda>st. (r, st))"

text \<open>An exception ends everything after it: the rest of the program is skipped.\<close>

definition bind :: "('s, 'a) prog \<Rightarrow> ('a \<Rightarrow> ('s, 'b) prog) \<Rightarrow> ('s, 'b) prog" where
  "bind m f = (\<lambda>st. case m st of (Inl e, st') \<Rightarrow> (Inl e, st') | (Inr x, st') \<Rightarrow> f x st')"

definition print :: "reg_msg \<Rightarrow> ('s, unit) prog" where
  "print msg = (\<lambda>(s, tr). (Inr (), (s, tr @ [RPrint msg])))"

text \<open>A remote call is in the trace whether it answers or raises.\<close>

definition remote :: "call \<Rightarrow> ('s \<Rightarrow> (error + 'a) \<times> 's) \<Rightarrow> ('s, 'a) prog" where
  "remote c op = (\<lambda>(s, tr). case op s of (r, s') \<Rightarrow> (r, (s', tr @ [Remote c])))"

text \<open>\<^verbatim>\<open>try: m  except: h\<close> with a bare \<^verbatim>\<open>except\<close>: every exception goes to \<open>h\<close>.\<close>

definition try_except :: "('s, 'a) prog \<Rightarrow> ('s, 'a) prog \<Rightarrow> ('s, 'a) prog" where
  "try_except m h = (\<lambda>st. case m st of (Inl e, st') \<Rightarrow> h st' | (Inr x, st') \<Rightarrow> (Inr x, st'))"


subsection \<open>The functions of the script\<close>



definition register_environment :: "'s platform \<Rightarrow> string \<Rightarrow> string \<Rightarrow> ('s, environment) prog" where
  "register_environment p name dockerfile =
     bind (try_except
             (remote (EnvironmentsGet name ''latest'') (environments_get p name ''latest''))
             (let env = \<lparr>env_name = name, env_version = None,
                         env_description = Some (''Environment for '' @ name),
                         env_build = Some \<lparr>build_path = ''.'', dockerfile_path = dockerfile\<rparr>\<rparr>
              in remote (EnvironmentsCreateOrUpdate env) (environments_create_or_update p env)))
       (\<lambda>env. bind (print (MsgEnvironment (env_name env) (env_version env)))
       (\<lambda>_. ret env))"

definition register_component :: "'s platform \<Rightarrow> string \<Rightarrow> ('s, component) prog" where
  "register_component p yaml_path =
     bind (local_call (load_component p yaml_path))
       (\<lambda>component.
     bind (try_except
             (remote (ComponentsGet (comp_name component) (comp_version component))
                (components_get p (comp_name component) (comp_version component)))
             (remote (ComponentsCreateOrUpdate component)
                (components_create_or_update p component)))
       (\<lambda>component. bind (print (MsgComponent (comp_name component) (comp_version component)))
       (\<lambda>_. ret component)))"

text \<open>
  Line 96: \<^verbatim>\<open>next((j for j in child_jobs if "train_job" in j.display_name.lower()),
  child_jobs[0])\<close>. The default \<^verbatim>\<open>child_jobs[0]\<close> is an argument of \<^verbatim>\<open>next\<close>, so it is
  evaluated before the search starts and raises IndexError on an empty list.
\<close>












text \<open>Reading a trace: the remote calls, and which of them create something.\<close>

fun remote_calls :: "reg_event list \<Rightarrow> call list" where
  "remote_calls [] = []"
| "remote_calls (Remote c # es) = c # remote_calls es"
| "remote_calls (RPrint _ # es) = remote_calls es"

fun is_create :: "call \<Rightarrow> bool" where
  "is_create (EnvironmentsCreateOrUpdate _) = True"
| "is_create (ComponentsCreateOrUpdate _) = True"
| "is_create (JobsCreateOrUpdate _) = True"
| "is_create (ModelsCreateOrUpdate _) = True"
| "is_create (BatchEndpointsCreateOrUpdate _) = True"
| "is_create (PipelineComponentsCreateOrUpdate _) = True"
| "is_create (BatchDeploymentsCreateOrUpdate _) = True"
| "is_create _ = False"

fun is_get :: "call \<Rightarrow> bool" where
  "is_get (EnvironmentsGet _ _) = True"
| "is_get (ComponentsGet _ _) = True"
| "is_get (DataGet _ _) = True"
| "is_get (BatchEndpointsGet _) = True"
| "is_get _ = False"



definition trace :: "(error + 'a) \<times> ('s \<times> reg_event list) \<Rightarrow> reg_event list" where
  "trace r = snd (snd r)"

definition creates :: "reg_event list \<Rightarrow> nat" where
  "creates tr = length (filter is_create (remote_calls tr))"




subsection \<open>A workspace to run the registrar in\<close>

text \<open>
  The state of the workspace is the list of the resources it holds. A \<^verbatim>\<open>get\<close> of a
  resource it does not hold raises; every submitted job comes back with the status \<open>st\<close>
  and has the child jobs \<open>children\<close>.
\<close>

definition example_config :: config where
  "example_config =
     map_of [(''subscription_id'', ''sub''), (''resource_group'', ''rg''),
             (''workspace_name'', ''ws''), (''cluster'', ''cpu''),
             (''experiment'', ''exp''), (''datasource_name'', ''ds'')]"

definition example_platform :: "config \<Rightarrow> string \<Rightarrow> job list \<Rightarrow> string list platform" where
  "example_platform cfg st children =
     \<lparr>read_json =
        (\<lambda>path. if path = ''config.json'' then Inr cfg else Inl (Raised ''FileNotFoundError'')),
      load_component =
        (\<lambda>path. if path = ''train.yaml''
                   then Inr \<lparr>comp_name = ''train'', comp_version = Some ''1''\<rparr>
                 else if path = ''score.yaml''
                   then Inr \<lparr>comp_name = ''score'', comp_version = Some ''1''\<rparr>
                 else Inl (Raised ''FileNotFoundError'')),
      environments_get =
        (\<lambda>name label s.
           (if (''environment/'' @ name) \<in> set s
            then Inr \<lparr>env_name = name, env_version = Some ''1'', env_description = None,
                      env_build = None\<rparr>
            else Inl (Raised ''ResourceNotFoundError''), s)),
      environments_create_or_update =
        (\<lambda>env s. (Inr (env\<lparr>env_version := Some ''1''\<rparr>), (''environment/'' @ env_name env) # s)),
      components_get =
        (\<lambda>name version s.
           (if (''component/'' @ name) \<in> set s
            then Inr \<lparr>comp_name = name, comp_version = version\<rparr>
            else Inl (Raised ''ResourceNotFoundError''), s)),
      components_create_or_update = (\<lambda>c s. (Inr c, (''component/'' @ comp_name c) # s)),
      data_get =
        (\<lambda>name label s. (Inr \<lparr>data_name = name, data_id = ''azureml:'' @ name @ '':1''\<rparr>, s)),
      jobs_create_or_update =
        (\<lambda>pj s. (Inr \<lparr>job_name = ''job1'', display_name = tp_name pj, status = st,
                         studio_url = ''https://ml.azure.com/runs/job1''\<rparr>, s)),
      jobs_stream = (\<lambda>name s. (Inr (), s)),
      jobs_list = (\<lambda>parent s. (Inr children, s)),
      models_create_or_update =
        (\<lambda>spec s. (Inr \<lparr>model_name = model_spec_name spec, model_version = ''1'',
                          model_id = ''azureml:'' @ model_spec_name spec @ '':1''\<rparr>,
                     (''model/'' @ model_spec_name spec) # s)),
      batch_endpoints_get =
        (\<lambda>name s.
           (if (''endpoint/'' @ name) \<in> set s
            then Inr \<lparr>endpoint_name = name, defaults_deployment_name = None\<rparr>
            else Inl (Raised ''ResourceNotFoundError''), s)),
      batch_endpoints_begin_create_or_update =
        (\<lambda>ep s. (Inr (), (''endpoint/'' @ endpoint_name ep) # s)),
      pipeline_components_create_or_update =
        (\<lambda>sp s. (Inr \<lparr>comp_name = sp_name sp, comp_version = Some ''1''\<rparr>, s)),
      batch_deployments_begin_create_or_update = (\<lambda>d s. (Inr (), s))\<rparr>"



section \<open>Properties of the batch scorer\<close>

lemma reads_of_append: "reads_of (xs @ ys) = reads_of xs @ reads_of ys"
  by (induction xs rule: reads_of.induct) simp_all

lemma writes_of_append: "writes_of (xs @ ys) = writes_of xs @ writes_of ys"
  by (induction xs rule: writes_of.induct) simp_all

lemma makedirs_of_append: "makedirs_of (xs @ ys) = makedirs_of xs @ makedirs_of ys"
  by (induction xs rule: makedirs_of.induct) simp_all

lemma processed_of_append: "processed_of (xs @ ys) = processed_of xs @ processed_of ys"
  by (induction xs rule: processed_of.induct) simp_all

lemma endswith_iff: "endswith s p \<longleftrightarrow> (\<exists>stem. s = stem @ p)"
  unfolding endswith_def
proof
  assume h: "length p \<le> length s \<and> drop (length s - length p) s = p"
  have "s = take (length s - length p) s @ drop (length s - length p) s" by simp
  with h show "\<exists>stem. s = stem @ p" by metis
next
  assume "\<exists>stem. s = stem @ p"
  then show "length p \<le> length s \<and> drop (length s - length p) s = p" by auto
qed

lemma process_files_effects:
  "\<exists>evs. snd (process_files w m fs rs tr) = tr @ evs \<and> writes_of evs = [] \<and> makedirs_of evs = []"
proof (induction fs arbitrary: rs tr)
  case Nil
  show ?case by simp
next
  case (Cons f fs)
  show ?case
  proof (cases "pd_read_csv w f")
    case (Inl e) then show ?thesis by simp
  next
    case (Inr df)
    note rd = this
    show ?thesis
    proof (cases "m df")
      case (Inl e) with rd show ?thesis by simp
    next
      case (Inr ps)
      note pr = this
      show ?thesis
      proof (cases "set_column df ''prediction'' ps")
        case (Inl e) with rd pr show ?thesis by simp
      next
        case (Inr df')
        obtain evs where e: "snd (process_files w m fs (rs @ [df']) (tr @ [SPrint (Processing f), ReadCsv f, Predict df])) = (tr @ [SPrint (Processing f), ReadCsv f, Predict df]) @ evs" "writes_of evs = []" "makedirs_of evs = []"
          using Cons.IH by blast
        show ?thesis using rd pr Inr e
          by (intro exI[of _ "[SPrint (Processing f), ReadCsv f, Predict df] @ evs"]) simp
      qed
    qed
  qed
qed

lemma process_files_ok:
  "process_files w m fs rs tr = (Inr rs', tr') \<Longrightarrow>
     reads_of tr' = reads_of tr @ fs \<and> processed_of tr' = processed_of tr @ fs \<and> length rs' = length rs + length fs"
proof (induction fs arbitrary: rs tr)
  case Nil
  then show ?case by simp
next
  case (Cons f fs)
  from Cons.prems obtain df ps df' where
    "pd_read_csv w f = Inr df" "m df = Inr ps" "set_column df ''prediction'' ps = Inr df'"
    and rec: "process_files w m fs (rs @ [df']) (tr @ [SPrint (Processing f), ReadCsv f, Predict df]) = (Inr rs', tr')"
    by (auto split: sum.splits)
  from Cons.IH[OF rec] show ?case
    by (simp add: reads_of_append processed_of_append)
qed


lemma index_of_None: "index_of x xs = None \<longleftrightarrow> x \<notin> set xs"
  by (induction xs) auto

lemma columns_with_column:
  "columns (with_column df name vals) =
     (if name \<in> set (columns df) then columns df else columns df @ [name])"
  by (cases "index_of name (columns df)") (auto simp: with_column_def index_of_None[symmetric])

lemma length_rows_with_column:
  "length (rows (with_column df name vals)) = min (length (rows df)) (length vals)"
  by (cases "index_of name (columns df)") (simp_all add: with_column_def)

lemma set_union_columns: "set (union_columns css) = (\<Union>cs \<in> set css. set cs)"
  by (simp add: union_columns_def)

lemma distinct_union_columns: "distinct (union_columns css)"
  by (simp add: union_columns_def)

lemma set_column_fits:
  "length vals = length (rows df) \<Longrightarrow> set_column df name vals = Inr (with_column df name vals)"
  by (auto simp: set_column_def)

lemma length_concat_uniform:
  "\<forall>xs \<in> set xss. length xs = M \<Longrightarrow> length (concat xss) = length xss * M"
  by (induction xss) simp_all

lemma nth_concat_uniform:
  "\<forall>xs \<in> set xss. length xs = M \<Longrightarrow> i < length xss \<Longrightarrow> j < M \<Longrightarrow>
     concat xss ! (i * M + j) = xss ! i ! j"
proof (induction xss arbitrary: i)
  case Nil
  then show ?case by simp
next
  case (Cons xs xss)
  show ?case
  proof (cases i)
    case 0
    with Cons.prems show ?thesis by (simp add: nth_append)
  next
    case (Suc k)
    with Cons.prems have "concat xss ! (k * M + j) = xss ! k ! j"
      by (intro Cons.IH) simp_all
    moreover have "length xs = M" using Cons.prems by simp
    ultimately show ?thesis using Suc by (simp add: nth_append)
  qed
qed

lemma process_files_scored:
  assumes "map (pd_read_csv w) fs = map Inr dfs"
    and "map m dfs = map Inr pss"
    and "\<forall>df \<in> set dfs. length (rows df) = M"
    and "\<forall>ps \<in> set pss. length ps = M"
  shows "fst (process_files w m fs rs tr) = Inr (rs @ scored_frames dfs pss)"
  using assms
proof (induction fs arbitrary: dfs pss rs tr)
  case Nil
  then show ?case by (simp add: scored_frames_def)
next
  case (Cons f fs)
  from Cons.prems(1) obtain df dfs' where dfs: "dfs = df # dfs'"
    and rd: "pd_read_csv w f = Inr df" and rds: "map (pd_read_csv w) fs = map Inr dfs'"
    by (cases dfs) auto
  from Cons.prems(2) dfs obtain ps pss' where pss: "pss = ps # pss'"
    and pr: "m df = Inr ps" and prs: "map m dfs' = map Inr pss'"
    by (cases pss) auto
  have len: "length ps = length (rows df)"
    using Cons.prems(3,4) dfs pss by simp
  have rest: "fst (process_files w m fs (rs @ [with_column df ''prediction'' ps])
                (tr @ [SPrint (Processing f), ReadCsv f, Predict df]))
              = Inr ((rs @ [with_column df ''prediction'' ps]) @ scored_frames dfs' pss')"
    using Cons.prems(3,4) dfs pss by (intro Cons.IH[OF rds prs]) simp_all
  show ?case
    using rd pr rest by (simp add: set_column_fits[OF len] dfs pss scored_frames_def)
qed


lemma get_input_files_trace:
  "\<exists>evs. snd (get_input_files w p tr) = tr @ evs \<and> reads_of evs = [] \<and> writes_of evs = []
     \<and> makedirs_of evs = [] \<and> processed_of evs = []"
  by (auto simp: get_input_files_def split: sum.splits)

lemma get_input_files_file:
  "\<not> os_path_isdir w p \<Longrightarrow> get_input_files w p tr = (Inr [p], tr)"
  by (simp add: get_input_files_def)

lemma get_input_files_dir:
  "os_path_isdir w p \<Longrightarrow> os_listdir w p = Inr names \<Longrightarrow>
     get_input_files w p tr =
       (Inr (map (path_join p) (filter (\<lambda>f. endswith f ''.csv'') names)), tr @ [ListDir p])"
  by (simp add: get_input_files_def)

lemma process_files_one:
  "reads_of (snd (process_files w m [f] rs tr)) = reads_of tr @ [f]
   \<and> processed_of (snd (process_files w m [f] rs tr)) = processed_of tr @ [f]"
  by (simp add: reads_of_append processed_of_append split: sum.splits)

lemma save_results_trace:
  "\<exists>evs. snd (save_results w a rs tr) = tr @ evs \<and> reads_of evs = [] \<and> processed_of evs = []"
  by (auto simp: save_results_def Let_def split: sum.splits option.splits)

text \<open>
  C4. The input is a directory whose listing has no name ending in \<^verbatim>\<open>.csv\<close>, and the
  model loads. Then the run ends without an exception, its last action is the warning
  \<^verbatim>\<open>No results to save\<close>, and it has written no file, made no directory and read no
  file.
\<close>

theorem scorer_no_csv_warns:
  assumes "mlflow_load_model w (model_path a) = Inr m"
    and "os_path_isdir w (input_data a)"
    and "os_listdir w (input_data a) = Inr names"
    and "filter (\<lambda>f. endswith f ''.csv'') names = []"
  shows "fst (main_score w a) = Inr ()
     \<and> last (snd (main_score w a)) = SPrint NoResultsToSave
     \<and> writes_of (snd (main_score w a)) = []
     \<and> makedirs_of (snd (main_score w a)) = []
     \<and> reads_of (snd (main_score w a)) = []"
  using assms
  by (simp add: main_score_def get_input_files_dir save_results_def)

lemma main_score_file_input:
  assumes "\<not> os_path_isdir w (input_data a)"
    and "mlflow_load_model w (model_path a) = Inr m"
  shows "reads_of (snd (main_score w a)) = [input_data a]
     \<and> processed_of (snd (main_score w a)) = [input_data a]"
proof -
  let ?tr1 = "[SPrint (InputPath (input_data a)), SPrint (Output (output_data a)),
               SPrint (ModelPath (model_path a)), LoadModel (model_path a), SPrint ModelLoaded]"
  obtain r tr2 where pf: "process_files w m [input_data a] [] ?tr1 = (r, tr2)"
    by (cases "process_files w m [input_data a] [] ?tr1") 
  have tr2: "reads_of tr2 = [input_data a]" "processed_of tr2 = [input_data a]"
    using process_files_one[of w m "input_data a" "[]" ?tr1] by (simp_all only: pf snd_conv) simp_all
  show ?thesis
  proof (cases r)
    case (Inl e)
    then show ?thesis
      using assms pf tr2
      by (simp add: main_score_def Let_def get_input_files_file del: process_files.simps)
  next
    case (Inr rs)
    obtain evs where "snd (save_results w a rs tr2) = tr2 @ evs" "reads_of evs = []" "processed_of evs = []"
      using save_results_trace by blast
    then show ?thesis
      using assms pf tr2 Inr
      by (simp add: main_score_def Let_def get_input_files_file reads_of_append
            processed_of_append del: process_files.simps)
  qed
qed


lemma save_results_ok:
  assumes "rs \<noteq> []"
    and "os_makedirs w (output_data a) = None"
    and "\<forall>df. df_to_csv w (path_join (output_data a) ''scored_results.csv'') df = None"
  shows "save_results w a rs tr =
     (Inr (), tr @ [MakeDirs (output_data a),
        WriteCsv (path_join (output_data a) ''scored_results.csv'') (concat_frames rs),
        SPrint (ResultsSaved (path_join (output_data a) ''scored_results.csv''))])"
  using assms by (simp add: save_results_def pd_concat_def Let_def)

lemma save_results_returns:
  assumes "save_results w a rs tr = (Inr (), tr')" and "rs \<noteq> []"
  shows "\<exists>df. tr' = tr @ [MakeDirs (output_data a),
        WriteCsv (path_join (output_data a) ''scored_results.csv'') df,
        SPrint (ResultsSaved (path_join (output_data a) ''scored_results.csv''))]"
  using assms
  by (auto simp: save_results_def pd_concat_def Let_def split: option.splits if_splits)

lemma main_score_returns:
  assumes "main_score w a = (Inr (), tr)"
  shows "\<exists>m files tr1 rs tr2.
           mlflow_load_model w (model_path a) = Inr m
         \<and> get_input_files w (input_data a)
               [SPrint (InputPath (input_data a)), SPrint (Output (output_data a)),
                SPrint (ModelPath (model_path a)), LoadModel (model_path a),
                SPrint ModelLoaded] = (Inr files, tr1)
         \<and> process_files w m files [] tr1 = (Inr rs, tr2)
         \<and> save_results w a rs tr2 = (Inr (), tr)"
  using assms
  by (auto simp: main_score_def Let_def split: sum.splits prod.splits simp del: process_files.simps)

text \<open>
  C9, as amended. A run that ends without an exception and has read at least one input
  file makes the directory \<^verbatim>\<open>output_data\<close> (once), then writes one file, and that file is
  \<^verbatim>\<open>scored_results.csv\<close> joined to \<^verbatim>\<open>output_data\<close>: these and the line that reports
  the file are the last three actions of the run.
\<close>

theorem scorer_saves_in_output_directory:
  assumes "main_score w a = (Inr (), tr)" and "reads_of tr \<noteq> []"
  shows "makedirs_of tr = [output_data a]
     \<and> (\<exists>df pre. writes_of tr = [(path_join (output_data a) ''scored_results.csv'', df)]
          \<and> tr = pre @ [MakeDirs (output_data a),
                 WriteCsv (path_join (output_data a) ''scored_results.csv'') df,
                 SPrint (ResultsSaved (path_join (output_data a) ''scored_results.csv''))])
     \<and> path_join (output_data a) ''scored_results.csv'' =
         (if output_data a = [] \<or> endswith (output_data a) ''/''
          then output_data a @ ''scored_results.csv''
          else output_data a @ ''/'' @ ''scored_results.csv'')"
proof -
  let ?tr0 = "[SPrint (InputPath (input_data a)), SPrint (Output (output_data a)),
               SPrint (ModelPath (model_path a)), LoadModel (model_path a), SPrint ModelLoaded]"
  from main_score_returns[OF assms(1)] obtain m files tr1 rs tr2 where
    gi: "get_input_files w (input_data a) ?tr0 = (Inr files, tr1)"
    and pf: "process_files w m files [] tr1 = (Inr rs, tr2)"
    and sv: "save_results w a rs tr2 = (Inr (), tr)"
    by blast
  obtain e1 where e1: "tr1 = ?tr0 @ e1" "reads_of e1 = []" "writes_of e1 = []" "makedirs_of e1 = []"
    using get_input_files_trace[of w "input_data a" ?tr0] gi by auto
  obtain e2 where e2: "tr2 = tr1 @ e2" "writes_of e2 = []" "makedirs_of e2 = []"
    using process_files_effects[of w m files "[]" tr1] pf by auto
  have ok: "reads_of tr2 = reads_of tr1 @ files" "length rs = length files"
    using process_files_ok[OF pf] by simp_all
  have nonempty: "rs \<noteq> []"
  proof
    assume "rs = []"
    with sv have "tr = tr2 @ [SPrint NoResultsToSave]" by (simp add: save_results_def)
    moreover have "files = []" using ok \<open>rs = []\<close> by simp
    ultimately have "reads_of tr = []" using ok e1 by (simp add: reads_of_append)
    with assms(2) show False by simp
  qed
  from save_results_returns[OF sv nonempty] obtain df where
    tr: "tr = tr2 @ [MakeDirs (output_data a),
        WriteCsv (path_join (output_data a) ''scored_results.csv'') df,
        SPrint (ResultsSaved (path_join (output_data a) ''scored_results.csv''))]"
    by blast
  have w0: "writes_of tr2 = []" "makedirs_of tr2 = []"
    using e1 e2 by (simp_all add: writes_of_append makedirs_of_append)
  have "makedirs_of tr = [output_data a]"
    using tr w0 by (simp add: makedirs_of_append)
  moreover have "writes_of tr = [(path_join (output_data a) ''scored_results.csv'', df)]"
    using tr w0 by (simp add: writes_of_append)
  moreover have "path_join (output_data a) ''scored_results.csv'' =
         (if output_data a = [] \<or> endswith (output_data a) ''/''
          then output_data a @ ''scored_results.csv''
          else output_data a @ ''/'' @ ''scored_results.csv'')"
    by (simp add: path_join_def startswith_def)
  ultimately show ?thesis using tr by blast
qed


lemma length_scored_frames:
  "length dfs = length pss \<Longrightarrow> length (scored_frames dfs pss) = length dfs"
  by (simp add: scored_frames_def)

lemma rows_scored_frames:
  assumes "\<forall>df \<in> set dfs. length (rows df) = M" and "\<forall>ps \<in> set pss. length ps = M"
  shows "\<forall>s \<in> set (scored_frames dfs pss). length (rows s) = M"
  using assms
  by (auto simp: scored_frames_def length_rows_with_column dest!: set_zip_leftD set_zip_rightD
      elim!: in_set_zipE)

lemma columns_scored_frames:
  "length dfs = length pss \<Longrightarrow>
     (\<Union>s \<in> set (scored_frames dfs pss). set (columns s)) =
     (\<Union>df \<in> set dfs. insert ''prediction'' (set (columns df)))"
proof (induction dfs pss rule: list_induct2)
  case Nil
  show ?case by (simp add: scored_frames_def)
next
  case (Cons df dfs ps pss)
  then show ?case
    by (simp add: scored_frames_def columns_with_column insert_absorb)
qed

lemma length_reindex: "length (reindex cols df) = length (rows df)"
  by (simp add: reindex_def)

lemma columns_concat_frames: "columns (concat_frames dfs) = union_columns (map columns dfs)"
  by (simp add: concat_frames_def Let_def)

lemma rows_concat_frames:
  "rows (concat_frames dfs) = concat (map (reindex (columns (concat_frames dfs))) dfs)"
  by (simp add: concat_frames_def Let_def)

text \<open>
  C1, as amended. The input is a directory whose listing has N \<ge> 1 names ending in
  \<^verbatim>\<open>.csv\<close>; each of these files is read as a frame of M rows for which the model
  returns M predictions; the model loads and the output can be written. Then the run ends
  without an exception and writes exactly one file, the concatenation \<open>final\<close> of the
  scored frames. It has N * M rows. Its header is the union of the headers of the inputs
  together with \<^verbatim>\<open>prediction\<close>, without repetition, so it is one column longer than
  that union when no input file has a column of that name (a column of that name is
  overwritten, not added). The rows are those of the files in the order of the directory
  listing: row j of file i is row i * M + j of the output.
\<close>

theorem scorer_directory_concat:
  assumes dir: "os_path_isdir w (input_data a)"
    and ls: "os_listdir w (input_data a) = Inr names"
    and files: "files = map (path_join (input_data a)) (filter (\<lambda>f. endswith f ''.csv'') names)"
    and ne: "files \<noteq> []"
    and load: "mlflow_load_model w (model_path a) = Inr m"
    and rd: "map (pd_read_csv w) files = map Inr dfs"
    and pr: "map m dfs = map Inr pss"
    and M: "\<forall>df \<in> set dfs. length (rows df) = M" "\<forall>ps \<in> set pss. length ps = M"
    and mk: "os_makedirs w (output_data a) = None"
    and wr: "\<forall>df. df_to_csv w (path_join (output_data a) ''scored_results.csv'') df = None"
    and final: "final = concat_frames (scored_frames dfs pss)"
  shows "fst (main_score w a) = Inr ()
     \<and> writes_of (snd (main_score w a)) =
          [(path_join (output_data a) ''scored_results.csv'', final)]
     \<and> length (rows final) = length files * M
     \<and> set (columns final) = insert ''prediction'' (\<Union>df \<in> set dfs. set (columns df))
     \<and> distinct (columns final)
     \<and> ((\<forall>df \<in> set dfs. ''prediction'' \<notin> set (columns df)) \<longrightarrow>
          length (columns final) = card (\<Union>df \<in> set dfs. set (columns df)) + 1)
     \<and> rows final = concat (map (reindex (columns final)) (scored_frames dfs pss))
     \<and> (\<forall>i < length files. \<forall>j < M.
          rows final ! (i * M + j) = reindex (columns final) (scored_frames dfs pss ! i) ! j)"
proof -
  let ?tr1 = "[SPrint (InputPath (input_data a)), SPrint (Output (output_data a)),
               SPrint (ModelPath (model_path a)), LoadModel (model_path a),
               SPrint ModelLoaded, ListDir (input_data a)]"
  let ?out = "path_join (output_data a) ''scored_results.csv''"
  let ?sc = "scored_frames dfs pss"
  have len: "length dfs = length files" "length pss = length dfs"
    using rd pr by (metis length_map)+
  have sc_len: "length ?sc = length files"
    using len by (simp add: length_scored_frames)
  have sc_ne: "?sc \<noteq> []" using sc_len ne by auto
  have dfs_ne: "dfs \<noteq> []" using len ne by auto
  obtain tr2 where pf: "process_files w m files [] ?tr1 = (Inr ?sc, tr2)"
    using process_files_scored[OF rd pr M, of "[]" ?tr1]
    by (cases "process_files w m files [] ?tr1") simp
  obtain evs where evs: "tr2 = ?tr1 @ evs" "writes_of evs = []"
    using process_files_effects[of w m files "[]" ?tr1] pf by auto
  have run: "main_score w a = (Inr (), tr2 @ [MakeDirs (output_data a), WriteCsv ?out final,
               SPrint (ResultsSaved ?out)])"
    using load pf save_results_ok[OF sc_ne mk wr, of tr2]
    by (simp add: main_score_def Let_def get_input_files_dir[OF dir ls] files[symmetric] final
          del: process_files.simps)
  have wrs: "writes_of (snd (main_score w a)) = [(?out, final)]"
    using run evs by (simp add: writes_of_append)
  have rws: "rows final = concat (map (reindex (columns final)) ?sc)"
    unfolding final by (rule rows_concat_frames)
  have rowsM: "\<forall>rs \<in> set (map (reindex (columns final)) ?sc). length rs = M"
    using rows_scored_frames[OF M] by (auto simp: length_reindex)
  have nrows: "length (rows final) = length files * M"
    using length_concat_uniform[OF rowsM] sc_len by (simp add: rws)
  have cols: "set (columns final) = insert ''prediction'' (\<Union>df \<in> set dfs. set (columns df))"
    using columns_scored_frames[of dfs pss] len dfs_ne
    by (auto simp: final columns_concat_frames set_union_columns)
  have dist: "distinct (columns final)"
    by (simp add: final columns_concat_frames distinct_union_columns)
  have added: "(\<forall>df \<in> set dfs. ''prediction'' \<notin> set (columns df)) \<longrightarrow>
           length (columns final) = card (\<Union>df \<in> set dfs. set (columns df)) + 1"
  proof
    assume fresh: "\<forall>df \<in> set dfs. ''prediction'' \<notin> set (columns df)"
    have "length (columns final) = card (set (columns final))"
      using dist by (simp only: distinct_card)
    also have "\<dots> = card (insert ''prediction'' (\<Union>df \<in> set dfs. set (columns df)))"
      by (simp only: cols)
    also have "\<dots> = card (\<Union>df \<in> set dfs. set (columns df)) + 1"
      using fresh by (subst card_insert_disjoint) auto
    finally show "length (columns final) = card (\<Union>df \<in> set dfs. set (columns df)) + 1" .
  qed
  have order: "\<forall>i < length files. \<forall>j < M.
           rows final ! (i * M + j) = reindex (columns final) (?sc ! i) ! j"
  proof (intro allI impI)
    fix i j assume "i < length files" "j < M"
    then show "rows final ! (i * M + j) = reindex (columns final) (?sc ! i) ! j"
      using nth_concat_uniform[OF rowsM, of i j] sc_len by (simp add: rws[symmetric])
  qed
  have ok: "fst (main_score w a) = Inr ()" using run by simp
  show ?thesis
    by (intro conjI ok wrs nrows cols dist added rws order)
qed

lemmas scorer_eval =
  example_world_def example_frame_a_def example_frame_b_def example_args_def example_model_def main_score_def get_input_files_def
  save_results_def pd_concat_def concat_frames_def union_columns_def reindex_def cell_at_def set_column_def
  with_column_def path_join_def startswith_def endswith_def Let_def scored_frames_def


lemma main_score_single_scored:
  assumes nd: "\<not> os_path_isdir w (input_data a)"
    and load: "mlflow_load_model w (model_path a) = Inr m"
    and rd: "pd_read_csv w (input_data a) = Inr df"
    and pr: "m df = Inr ps"
    and len: "length ps = length (rows df)"
    and mk: "os_makedirs w (output_data a) = None"
    and wr: "\<forall>d. df_to_csv w (path_join (output_data a) ''scored_results.csv'') d = None"
  shows "main_score w a =
     (Inr (),
      [SPrint (InputPath (input_data a)), SPrint (Output (output_data a)),
       SPrint (ModelPath (model_path a)), LoadModel (model_path a), SPrint ModelLoaded,
       SPrint (Processing (input_data a)), ReadCsv (input_data a), Predict df,
       MakeDirs (output_data a),
       WriteCsv (path_join (output_data a) ''scored_results.csv'')
         (concat_frames [with_column df ''prediction'' ps]),
       SPrint (ResultsSaved (path_join (output_data a) ''scored_results.csv''))])"
  using load rd pr mk wr
  by (simp add: main_score_def Let_def get_input_files_file[OF nd] set_column_fits[OF len]
        save_results_def pd_concat_def)

text \<open>
  C10. An input path that is not a directory is the sole input file whatever its name:
  it is the one file read, and when it reads as a frame that the model scores, the scored
  frame is what is written. For a directory, the input files are the listed names of the
  form \<open>stem @ ''.csv''\<close>, in lower case as written, joined to the directory.
\<close>

theorem scorer_input_selection:
  "(\<not> os_path_isdir w (input_data a) \<longrightarrow> mlflow_load_model w (model_path a) = Inr m \<longrightarrow>
      get_input_files w (input_data a) tr = (Inr [input_data a], tr)
    \<and> reads_of (snd (main_score w a)) = [input_data a]
    \<and> (pd_read_csv w (input_data a) = Inr df \<longrightarrow> m df = Inr ps \<longrightarrow>
       length ps = length (rows df) \<longrightarrow> os_makedirs w (output_data a) = None \<longrightarrow>
       (\<forall>d. df_to_csv w (path_join (output_data a) ''scored_results.csv'') d = None) \<longrightarrow>
         fst (main_score w a) = Inr ()
       \<and> writes_of (snd (main_score w a)) =
           [(path_join (output_data a) ''scored_results.csv'',
             concat_frames [with_column df ''prediction'' ps])]))
   \<and> (os_path_isdir w (input_data a) \<longrightarrow> os_listdir w (input_data a) = Inr names \<longrightarrow>
        fst (get_input_files w (input_data a) tr) =
          Inr (map (path_join (input_data a)) (filter (\<lambda>f. \<exists>stem. f = stem @ ''.csv'') names)))"
proof (intro conjI impI)
  assume "\<not> os_path_isdir w (input_data a)"
  then show "get_input_files w (input_data a) tr = (Inr [input_data a], tr)"
    by (rule get_input_files_file)
next
  assume "\<not> os_path_isdir w (input_data a)" "mlflow_load_model w (model_path a) = Inr m"
  then show "reads_of (snd (main_score w a)) = [input_data a]"
    using main_score_file_input by blast
next
  assume h: "\<not> os_path_isdir w (input_data a)" "mlflow_load_model w (model_path a) = Inr m"
    "pd_read_csv w (input_data a) = Inr df" "m df = Inr ps" "length ps = length (rows df)"
    "os_makedirs w (output_data a) = None"
    "\<forall>d. df_to_csv w (path_join (output_data a) ''scored_results.csv'') d = None"
  note run = main_score_single_scored[OF h]
  show "fst (main_score w a) = Inr ()" by (simp only: run fst_conv)
  show "writes_of (snd (main_score w a)) =
           [(path_join (output_data a) ''scored_results.csv'',
             concat_frames [with_column df ''prediction'' ps])]"
    by (simp add: run)
next
  assume "os_path_isdir w (input_data a)" "os_listdir w (input_data a) = Inr names"
  then show "fst (get_input_files w (input_data a) tr) =
          Inr (map (path_join (input_data a)) (filter (\<lambda>f. \<exists>stem. f = stem @ ''.csv'') names))"
    by (simp add: get_input_files_dir endswith_iff)
qed


text \<open>A run of C4's theorem: the directory \<^verbatim>\<open>empty\<close>.\<close>

theorem scorer_no_csv_warns_witness:
  "mlflow_load_model example_world (model_path (example_args ''empty'')) = Inr example_model
   \<and> os_path_isdir example_world (input_data (example_args ''empty''))
   \<and> os_listdir example_world (input_data (example_args ''empty'')) = Inr [''notes.txt'', ''C.CSV'']
   \<and> filter (\<lambda>f. endswith f ''.csv'') [''notes.txt'', ''C.CSV''] = []
   \<and> fst (main_score example_world (example_args ''empty'')) = Inr ()
   \<and> last (snd (main_score example_world (example_args ''empty''))) = SPrint NoResultsToSave
   \<and> writes_of (snd (main_score example_world (example_args ''empty''))) = []
   \<and> makedirs_of (snd (main_score example_world (example_args ''empty''))) = []
   \<and> reads_of (snd (main_score example_world (example_args ''empty''))) = []"
proof -
  have h1: "mlflow_load_model example_world (model_path (example_args ''empty'')) = Inr example_model"
    by (simp add: example_world_def example_args_def)
  have h2: "os_path_isdir example_world (input_data (example_args ''empty''))"
    by (simp add: example_world_def example_args_def)
  have h3: "os_listdir example_world (input_data (example_args ''empty'')) = Inr [''notes.txt'', ''C.CSV'']"
    by (simp add: example_world_def example_args_def)
  have h4: "filter (\<lambda>f. endswith f ''.csv'') [''notes.txt'', ''C.CSV''] = []"
    by (simp add: endswith_def)
  show ?thesis
    by (intro conjI h1 h2 h3 h4 scorer_no_csv_warns[OF h1 h2 h3 h4, THEN conjunct1]
          scorer_no_csv_warns[OF h1 h2 h3 h4, THEN conjunct2, THEN conjunct1]
          scorer_no_csv_warns[OF h1 h2 h3 h4, THEN conjunct2, THEN conjunct2, THEN conjunct1]
          scorer_no_csv_warns[OF h1 h2 h3 h4, THEN conjunct2, THEN conjunct2, THEN conjunct2, THEN conjunct1]
          scorer_no_csv_warns[OF h1 h2 h3 h4, THEN conjunct2, THEN conjunct2, THEN conjunct2, THEN conjunct2])
qed


text \<open>
  A run of C1's theorem: the directory \<^verbatim>\<open>in\<close>, two CSV files of two rows each, four rows
  written.
\<close>

theorem scorer_directory_concat_witness:
  "(os_path_isdir example_world (input_data (example_args ''in''))
   \<and> os_listdir example_world (input_data (example_args ''in'')) =
       Inr [''b.csv'', ''notes.txt'', ''a.csv'', ''C.CSV'']
   \<and> [''in/b.csv'', ''in/a.csv''] =
       map (path_join (input_data (example_args ''in'')))
         (filter (\<lambda>f. endswith f ''.csv'') [''b.csv'', ''notes.txt'', ''a.csv'', ''C.CSV''])
   \<and> [''in/b.csv'', ''in/a.csv''] \<noteq> []
   \<and> mlflow_load_model example_world (model_path (example_args ''in'')) = Inr example_model
   \<and> map (pd_read_csv example_world) [''in/b.csv'', ''in/a.csv''] =
       map Inr [example_frame_b, example_frame_a]
   \<and> map example_model [example_frame_b, example_frame_a] =
       map Inr [[Num 2, Num 2], [Num 2, Num 2]]
   \<and> length (rows example_frame_b) = 2 \<and> length (rows example_frame_a) = 2
   \<and> length [Num 2, Num 2 :: cell] = 2
   \<and> os_makedirs example_world (output_data (example_args ''in'')) = None
   \<and> (\<forall>df. df_to_csv example_world
          (path_join (output_data (example_args ''in'')) ''scored_results.csv'') df = None)
   \<and> \<lparr>columns = [''x'', ''z'', ''prediction'', ''y''],
       rows = [[Num 5, Str ''u'', Num 2, NaN], [Num 6, Str ''v'', Num 2, NaN],
               [Num 1, NaN, Num 2, Num 2], [Num 3, NaN, Num 2, Num 4]]\<rparr> =
       concat_frames (scored_frames [example_frame_b, example_frame_a]
                        [[Num 2, Num 2], [Num 2, Num 2]]))
   \<and> fst (main_score example_world (example_args ''in'')) = Inr ()
   \<and> writes_of (snd (main_score example_world (example_args ''in''))) =
       [(path_join (output_data (example_args ''in'')) ''scored_results.csv'',
         \<lparr>columns = [''x'', ''z'', ''prediction'', ''y''],
          rows = [[Num 5, Str ''u'', Num 2, NaN], [Num 6, Str ''v'', Num 2, NaN],
                  [Num 1, NaN, Num 2, Num 2], [Num 3, NaN, Num 2, Num 4]]\<rparr>)]
   \<and> length (rows \<lparr>columns = [''x'', ''z'', ''prediction'', ''y''],
          rows = [[Num 5, Str ''u'', Num 2, NaN], [Num 6, Str ''v'', Num 2, NaN],
                  [Num 1, NaN, Num 2, Num 2], [Num 3, NaN, Num 2, Num 4]]\<rparr>) =
       length [''in/b.csv'', ''in/a.csv''] * 2"
proof -
  let ?final = "\<lparr>columns = [''x'', ''z'', ''prediction'', ''y''],
       rows = [[Num 5, Str ''u'', Num 2, NaN], [Num 6, Str ''v'', Num 2, NaN],
               [Num 1, NaN, Num 2, Num 2], [Num 3, NaN, Num 2, Num 4]]\<rparr>"
  have h1: "os_path_isdir example_world (input_data (example_args ''in''))"
    by (simp add: example_world_def example_args_def)
  have h2: "os_listdir example_world (input_data (example_args ''in'')) =
       Inr [''b.csv'', ''notes.txt'', ''a.csv'', ''C.CSV'']"
    by (simp add: example_world_def example_args_def)
  have h3: "[''in/b.csv'', ''in/a.csv''] =
       map (path_join (input_data (example_args ''in'')))
         (filter (\<lambda>f. endswith f ''.csv'') [''b.csv'', ''notes.txt'', ''a.csv'', ''C.CSV''])"
    by (simp add: example_args_def endswith_def path_join_def startswith_def)
  have h4: "[''in/b.csv'', ''in/a.csv''] \<noteq> []" by simp
  have h5: "mlflow_load_model example_world (model_path (example_args ''in'')) = Inr example_model"
    by (simp add: example_world_def example_args_def)
  have h6: "map (pd_read_csv example_world) [''in/b.csv'', ''in/a.csv''] =
              map Inr [example_frame_b, example_frame_a]"
    by (simp add: example_world_def)
  have h7: "map example_model [example_frame_b, example_frame_a] =
              map Inr [[Num 2, Num 2], [Num 2, Num 2]]"
    by (simp add: example_model_def example_frame_a_def example_frame_b_def)
  have h8: "\<forall>df \<in> set [example_frame_b, example_frame_a]. length (rows df) = 2"
    by (simp add: example_frame_a_def example_frame_b_def)
  have h9: "\<forall>ps \<in> set [[Num 2, Num 2], [Num 2, Num 2]]. length ps = 2" by simp
  have h10: "os_makedirs example_world (output_data (example_args ''in'')) = None"
    by (simp add: example_world_def)
  have h11: "\<forall>df. df_to_csv example_world
               (path_join (output_data (example_args ''in'')) ''scored_results.csv'') df = None"
    by (simp add: example_world_def)
  have h12: "?final = concat_frames (scored_frames [example_frame_b, example_frame_a]
                        [[Num 2, Num 2], [Num 2, Num 2]])"
    by (simp add: concat_frames_def scored_frames_def example_frame_a_def example_frame_b_def
          with_column_def union_columns_def reindex_def cell_at_def)
  note r = scorer_directory_concat[OF h1 h2 h3 h4 h5 h6 h7 h8 h9 h10 h11 h12]
  have hyps: "os_path_isdir example_world (input_data (example_args ''in''))
   \<and> os_listdir example_world (input_data (example_args ''in'')) =
       Inr [''b.csv'', ''notes.txt'', ''a.csv'', ''C.CSV'']
   \<and> [''in/b.csv'', ''in/a.csv''] =
       map (path_join (input_data (example_args ''in'')))
         (filter (\<lambda>f. endswith f ''.csv'') [''b.csv'', ''notes.txt'', ''a.csv'', ''C.CSV''])
   \<and> [''in/b.csv'', ''in/a.csv''] \<noteq> []
   \<and> mlflow_load_model example_world (model_path (example_args ''in'')) = Inr example_model
   \<and> map (pd_read_csv example_world) [''in/b.csv'', ''in/a.csv''] =
       map Inr [example_frame_b, example_frame_a]
   \<and> map example_model [example_frame_b, example_frame_a] =
       map Inr [[Num 2, Num 2], [Num 2, Num 2]]
   \<and> length (rows example_frame_b) = 2 \<and> length (rows example_frame_a) = 2
   \<and> length [Num 2, Num 2 :: cell] = 2
   \<and> os_makedirs example_world (output_data (example_args ''in'')) = None
   \<and> (\<forall>df. df_to_csv example_world
          (path_join (output_data (example_args ''in'')) ''scored_results.csv'') df = None)
   \<and> ?final = concat_frames (scored_frames [example_frame_b, example_frame_a]
                        [[Num 2, Num 2], [Num 2, Num 2]])"
    using h1 h2 h3 h4 h5 h6 h7 h8 h10 h11 h12 by simp
  show ?thesis
    apply (rule conjI[OF hyps])
    apply (rule conjI[OF r[THEN conjunct1]])
    apply (rule conjI[OF r[THEN conjunct2, THEN conjunct1]])
    apply (rule r[THEN conjunct2, THEN conjunct2, THEN conjunct1])
    done
qed

text \<open>
  C1 as stated fails on two directories. In \<^verbatim>\<open>rescored\<close> the one CSV file has the header
  \<^verbatim>\<open>x, prediction\<close> and the output has the same two columns: none is added. In
  \<^verbatim>\<open>empty\<close> no name ends in \<^verbatim>\<open>.csv\<close> (N = 0) and the run ends normally with no file
  written, not one.
\<close>

theorem scorer_directory_concat_counterexample:
  "os_path_isdir example_world (input_data (example_args ''rescored''))
   \<and> os_listdir example_world (input_data (example_args ''rescored'')) = Inr [''old.csv'']
   \<and> pd_read_csv example_world ''rescored/old.csv'' =
       Inr \<lparr>columns = [''x'', ''prediction''], rows = [[Num 1, Num 0]]\<rparr>
   \<and> main_score example_world (example_args ''rescored'') =
       (Inr (),
        [SPrint (InputPath ''rescored''), SPrint (Output ''out''), SPrint (ModelPath ''model''),
         LoadModel ''model'', SPrint ModelLoaded, ListDir ''rescored'',
         SPrint (Processing ''rescored/old.csv''), ReadCsv ''rescored/old.csv'',
         Predict \<lparr>columns = [''x'', ''prediction''], rows = [[Num 1, Num 0]]\<rparr>,
         MakeDirs ''out'',
         WriteCsv ''out/scored_results.csv''
           \<lparr>columns = [''x'', ''prediction''], rows = [[Num 1, Num 2]]\<rparr>,
         SPrint (ResultsSaved ''out/scored_results.csv'')])
   \<and> os_path_isdir example_world (input_data (example_args ''empty''))
   \<and> os_listdir example_world (input_data (example_args ''empty'')) = Inr [''notes.txt'', ''C.CSV'']
   \<and> fst (main_score example_world (example_args ''empty'')) = Inr ()
   \<and> writes_of (snd (main_score example_world (example_args ''empty''))) = []"
  by (simp add: scorer_eval)

text \<open>
  C9 as stated fails on the directory \<^verbatim>\<open>empty\<close>: the run ends without an exception, and
  neither makes the output directory nor writes a file.
\<close>

theorem scorer_saves_in_output_directory_counterexample:
  "main_score example_world (example_args ''empty'') =
     (Inr (), [SPrint (InputPath ''empty''), SPrint (Output ''out''), SPrint (ModelPath ''model''),
               LoadModel ''model'', SPrint ModelLoaded, ListDir ''empty'',
               SPrint NoResultsToSave])
   \<and> makedirs_of (snd (main_score example_world (example_args ''empty''))) = []
   \<and> writes_of (snd (main_score example_world (example_args ''empty''))) = []"
  by (simp add: scorer_eval)

text \<open>A run of C9's theorem: the directory \<^verbatim>\<open>in\<close>, written to \<^verbatim>\<open>out/scored_results.csv\<close>.\<close>

theorem scorer_saves_in_output_directory_witness:
  "main_score example_world (example_args ''in'') =
     (Inr (), snd (main_score example_world (example_args ''in'')))
   \<and> reads_of (snd (main_score example_world (example_args ''in''))) \<noteq> []
   \<and> makedirs_of (snd (main_score example_world (example_args ''in''))) =
       [output_data (example_args ''in'')]
   \<and> output_data (example_args ''in'') = ''out''
   \<and> path_join (output_data (example_args ''in'')) ''scored_results.csv'' =
       ''out/scored_results.csv''"
proof -
  have run: "main_score example_world (example_args ''in'') =
     (Inr (), snd (main_score example_world (example_args ''in'')))"
    by (simp add: scorer_eval)
  have rd: "reads_of (snd (main_score example_world (example_args ''in''))) \<noteq> []"
    by (simp add: scorer_eval)
  have out: "output_data (example_args ''in'') = ''out''"
    by (simp add: example_args_def)
  have pj: "path_join (output_data (example_args ''in'')) ''scored_results.csv'' =
       ''out/scored_results.csv''"
    by (simp add: example_args_def path_join_def startswith_def endswith_def)
  show ?thesis
    by (intro conjI run rd out pj scorer_saves_in_output_directory[OF run rd, THEN conjunct1])
qed

text \<open>
  A run of C10's theorem: the file \<^verbatim>\<open>data.txt\<close> is read and scored; in the directory
  \<^verbatim>\<open>in\<close> the names \<^verbatim>\<open>notes.txt\<close> and \<^verbatim>\<open>C.CSV\<close> are left out.
\<close>

theorem scorer_input_selection_witness:
  "\<not> os_path_isdir example_world (input_data (example_args ''data.txt''))
   \<and> \<not> endswith (input_data (example_args ''data.txt'')) ''.csv''
   \<and> mlflow_load_model example_world (model_path (example_args ''data.txt'')) = Inr example_model
   \<and> pd_read_csv example_world (input_data (example_args ''data.txt'')) =
       Inr \<lparr>columns = [''x''], rows = [[Num 9]]\<rparr>
   \<and> example_model \<lparr>columns = [''x''], rows = [[Num 9]]\<rparr> = Inr [Num 1]
   \<and> length [Num 1] = length (rows \<lparr>columns = [''x''], rows = [[Num 9]]\<rparr>)
   \<and> os_makedirs example_world (output_data (example_args ''data.txt'')) = None
   \<and> (\<forall>d. df_to_csv example_world
         (path_join (output_data (example_args ''data.txt'')) ''scored_results.csv'') d = None)
   \<and> reads_of (snd (main_score example_world (example_args ''data.txt''))) =
       [input_data (example_args ''data.txt'')]
   \<and> fst (main_score example_world (example_args ''data.txt'')) = Inr ()
   \<and> writes_of (snd (main_score example_world (example_args ''data.txt''))) =
       [(path_join (output_data (example_args ''data.txt'')) ''scored_results.csv'',
         concat_frames [with_column \<lparr>columns = [''x''], rows = [[Num 9]]\<rparr> ''prediction''
                          [Num 1]])]
   \<and> os_path_isdir example_world (input_data (example_args ''in''))
   \<and> os_listdir example_world (input_data (example_args ''in'')) =
       Inr [''b.csv'', ''notes.txt'', ''a.csv'', ''C.CSV'']
   \<and> fst (get_input_files example_world (input_data (example_args ''in'')) []) =
       Inr (map (path_join (input_data (example_args ''in'')))
              (filter (\<lambda>f. \<exists>stem. f = stem @ ''.csv'')
                 [''b.csv'', ''notes.txt'', ''a.csv'', ''C.CSV'']))
   \<and> fst (get_input_files example_world (input_data (example_args ''in'')) []) =
       Inr [''in/b.csv'', ''in/a.csv'']"
proof -
  have h1: "\<not> os_path_isdir example_world (input_data (example_args ''data.txt''))"
    by (simp add: example_world_def example_args_def)
  have h2: "mlflow_load_model example_world (model_path (example_args ''data.txt'')) = Inr example_model"
    by (simp add: example_world_def example_args_def)
  have h3: "\<not> endswith (input_data (example_args ''data.txt'')) ''.csv''"
    by (simp add: example_args_def endswith_def)
  have h4: "os_path_isdir example_world (input_data (example_args ''in''))"
    by (simp add: example_world_def example_args_def)
  have h5: "os_listdir example_world (input_data (example_args ''in'')) =
       Inr [''b.csv'', ''notes.txt'', ''a.csv'', ''C.CSV'']"
    by (simp add: example_world_def example_args_def)
  have h6: "pd_read_csv example_world (input_data (example_args ''data.txt'')) =
       Inr \<lparr>columns = [''x''], rows = [[Num 9]]\<rparr>"
    by (simp add: example_world_def example_args_def)
  have h7: "example_model \<lparr>columns = [''x''], rows = [[Num 9]]\<rparr> = Inr [Num 1]"
    by (simp add: example_model_def)
  have h8: "length [Num 1] = length (rows \<lparr>columns = [''x''], rows = [[Num 9]]\<rparr>)"
    by simp
  have h9: "os_makedirs example_world (output_data (example_args ''data.txt'')) = None"
    by (simp add: example_world_def)
  have h10: "\<forall>d. df_to_csv example_world
         (path_join (output_data (example_args ''data.txt'')) ''scored_results.csv'') d = None"
    by (simp add: example_world_def)
  note single = scorer_input_selection[of example_world "example_args ''data.txt''" example_model,
                  THEN conjunct1, rule_format, OF h1 h2]
  note scored = single[THEN conjunct2, THEN conjunct2, rule_format, OF h6 h7 h8 h9 h10[rule_format]]
  note dir = scorer_input_selection[of example_world "example_args ''in''" _ "[]" _ _
                 "[''b.csv'', ''notes.txt'', ''a.csv'', ''C.CSV'']",
                 THEN conjunct2, rule_format, OF h4 h5]
  have listed: "fst (get_input_files example_world (input_data (example_args ''in'')) []) =
       Inr [''in/b.csv'', ''in/a.csv'']"
    using dir
    by (simp add: endswith_iff[symmetric] endswith_def example_args_def path_join_def
          startswith_def)
  show ?thesis
    by (intro conjI h1 h2 h3 h4 h5 h6 h7 h8 h9 h10 single[THEN conjunct2, THEN conjunct1]
          scored[THEN conjunct1] scored[THEN conjunct2] dir listed)
qed

section \<open>Properties of the asset registrar\<close>

lemma remote_calls_append: "remote_calls (xs @ ys) = remote_calls xs @ remote_calls ys"
  by (induction xs rule: remote_calls.induct) simp_all


















lemma register_environment_found:
  assumes "environments_get p name ''latest'' s = (Inr env, s1)"
  shows "register_environment p name dockerfile (s, tr) =
     (Inr env, (s1, tr @ [Remote (EnvironmentsGet name ''latest''),
                         RPrint (MsgEnvironment (env_name env) (env_version env))]))"
  using assms
  by (simp add: register_environment_def bind_def try_except_def remote_def print_def ret_def
        Let_def)

lemma register_environment_missing:
  assumes "environments_get p name ''latest'' s = (Inl e, s1)"
  shows "trace (register_environment p name dockerfile (s, tr)) =
     tr @ [Remote (EnvironmentsGet name ''latest''),
           Remote (EnvironmentsCreateOrUpdate
             \<lparr>env_name = name, env_version = None,
              env_description = Some (''Environment for '' @ name),
              env_build = Some \<lparr>build_path = ''.'', dockerfile_path = dockerfile\<rparr>\<rparr>)]
       @ (case fst (environments_create_or_update p
             \<lparr>env_name = name, env_version = None,
              env_description = Some (''Environment for '' @ name),
              env_build = Some \<lparr>build_path = ''.'', dockerfile_path = dockerfile\<rparr>\<rparr> s1) of
            Inl _ \<Rightarrow> []
          | Inr env \<Rightarrow> [RPrint (MsgEnvironment (env_name env) (env_version env))])"
  using assms
  by (simp add: register_environment_def bind_def try_except_def remote_def print_def ret_def
        Let_def trace_def split: prod.splits sum.splits)

lemma register_component_found:
  assumes "load_component p yaml_path = Inr c"
    and "components_get p (comp_name c) (comp_version c) s = (Inr c', s1)"
  shows "register_component p yaml_path (s, tr) =
     (Inr c', (s1, tr @ [Remote (ComponentsGet (comp_name c) (comp_version c)),
                        RPrint (MsgComponent (comp_name c') (comp_version c'))]))"
  using assms
  by (simp add: register_component_def bind_def try_except_def remote_def print_def ret_def
        local_call_def)

lemma register_component_missing:
  assumes "load_component p yaml_path = Inr c"
    and "components_get p (comp_name c) (comp_version c) s = (Inl e, s1)"
  shows "trace (register_component p yaml_path (s, tr)) =
     tr @ [Remote (ComponentsGet (comp_name c) (comp_version c)),
           Remote (ComponentsCreateOrUpdate c)]
       @ (case fst (components_create_or_update p c s1) of
            Inl _ \<Rightarrow> []
          | Inr c' \<Rightarrow> [RPrint (MsgComponent (comp_name c') (comp_version c'))])"
  using assms
  by (simp add: register_component_def bind_def try_except_def remote_def print_def ret_def
        local_call_def trace_def split: prod.splits sum.splits)

text \<open>
  C2. In \<^verbatim>\<open>register_environment\<close>, when the \<^verbatim>\<open>get\<close> by name and label raises (any
  exception), the calls made are that \<^verbatim>\<open>get\<close> and then one \<^verbatim>\<open>create_or_update\<close> of the
  new environment: exactly one create call. When the \<^verbatim>\<open>get\<close> answers, it is the only
  call: no create call. The same holds in \<^verbatim>\<open>register_component\<close>, once the YAML
  definition is loaded, for the \<^verbatim>\<open>get\<close> by name and version and the
  \<^verbatim>\<open>create_or_update\<close> of the loaded component.
\<close>

theorem registrar_get_or_create:
  "(fst (environments_get p name ''latest'' s) = Inl e \<longrightarrow>
      remote_calls (trace (register_environment p name dockerfile (s, tr))) =
        remote_calls tr @
        [EnvironmentsGet name ''latest'',
         EnvironmentsCreateOrUpdate
           \<lparr>env_name = name, env_version = None,
            env_description = Some (''Environment for '' @ name),
            env_build = Some \<lparr>build_path = ''.'', dockerfile_path = dockerfile\<rparr>\<rparr>]
    \<and> creates (trace (register_environment p name dockerfile (s, tr))) = creates tr + 1)
   \<and> (fst (environments_get p name ''latest'' s) = Inr env \<longrightarrow>
      remote_calls (trace (register_environment p name dockerfile (s, tr))) =
        remote_calls tr @ [EnvironmentsGet name ''latest'']
    \<and> creates (trace (register_environment p name dockerfile (s, tr))) = creates tr)
   \<and> (load_component p yaml_path = Inr c \<longrightarrow>
        (fst (components_get p (comp_name c) (comp_version c) s) = Inl e' \<longrightarrow>
           remote_calls (trace (register_component p yaml_path (s, tr))) =
             remote_calls tr @
             [ComponentsGet (comp_name c) (comp_version c), ComponentsCreateOrUpdate c]
         \<and> creates (trace (register_component p yaml_path (s, tr))) = creates tr + 1)
      \<and> (fst (components_get p (comp_name c) (comp_version c) s) = Inr c' \<longrightarrow>
           remote_calls (trace (register_component p yaml_path (s, tr))) =
             remote_calls tr @ [ComponentsGet (comp_name c) (comp_version c)]
         \<and> creates (trace (register_component p yaml_path (s, tr))) = creates tr))"
proof (intro conjI impI)
  assume "fst (environments_get p name ''latest'' s) = Inl e"
  then obtain s1 where g: "environments_get p name ''latest'' s = (Inl e, s1)"
    by (cases "environments_get p name ''latest'' s") simp
  show "remote_calls (trace (register_environment p name dockerfile (s, tr))) =
        remote_calls tr @
        [EnvironmentsGet name ''latest'',
         EnvironmentsCreateOrUpdate
           \<lparr>env_name = name, env_version = None,
            env_description = Some (''Environment for '' @ name),
            env_build = Some \<lparr>build_path = ''.'', dockerfile_path = dockerfile\<rparr>\<rparr>]"
    by (simp add: register_environment_missing[OF g] remote_calls_append split: sum.splits)
  show "creates (trace (register_environment p name dockerfile (s, tr))) = creates tr + 1"
    by (simp add: register_environment_missing[OF g] creates_def remote_calls_append
          split: sum.splits)
next
  assume "fst (environments_get p name ''latest'' s) = Inr env"
  then obtain s1 where g: "environments_get p name ''latest'' s = (Inr env, s1)"
    by (cases "environments_get p name ''latest'' s") simp
  show "remote_calls (trace (register_environment p name dockerfile (s, tr))) =
        remote_calls tr @ [EnvironmentsGet name ''latest'']"
    by (simp add: register_environment_found[OF g] trace_def remote_calls_append)
  show "creates (trace (register_environment p name dockerfile (s, tr))) = creates tr"
    by (simp add: register_environment_found[OF g] trace_def creates_def remote_calls_append)
next
  assume l: "load_component p yaml_path = Inr c"
    and "fst (components_get p (comp_name c) (comp_version c) s) = Inl e'"
  then obtain s1 where g: "components_get p (comp_name c) (comp_version c) s = (Inl e', s1)"
    by (cases "components_get p (comp_name c) (comp_version c) s") simp
  show "remote_calls (trace (register_component p yaml_path (s, tr))) =
             remote_calls tr @
             [ComponentsGet (comp_name c) (comp_version c), ComponentsCreateOrUpdate c]"
    by (simp add: register_component_missing[OF l g] remote_calls_append split: sum.splits)
  show "creates (trace (register_component p yaml_path (s, tr))) = creates tr + 1"
    by (simp add: register_component_missing[OF l g] creates_def remote_calls_append
          split: sum.splits)
next
  assume l: "load_component p yaml_path = Inr c"
    and "fst (components_get p (comp_name c) (comp_version c) s) = Inr c'"
  then obtain s1 where g: "components_get p (comp_name c) (comp_version c) s = (Inr c', s1)"
    by (cases "components_get p (comp_name c) (comp_version c) s") simp
  show "remote_calls (trace (register_component p yaml_path (s, tr))) =
             remote_calls tr @ [ComponentsGet (comp_name c) (comp_version c)]"
    by (simp add: register_component_found[OF l g] trace_def remote_calls_append)
  show "creates (trace (register_component p yaml_path (s, tr))) = creates tr"
    by (simp add: register_component_found[OF l g] trace_def creates_def remote_calls_append)
qed





























text \<open>
  A run of C2's theorem: in the example workspace the environment and the component are
  created once when it is empty, and not at all when it holds them.
\<close>

theorem registrar_get_or_create_witness:
  "fst (environments_get (example_platform example_config ''Completed'' [])
          ''iGuard-env'' ''latest'' []) = Inl (Raised ''ResourceNotFoundError'')
   \<and> creates (trace (register_environment (example_platform example_config ''Completed'' [])
                        ''iGuard-env'' ''Dockerfile'' ([], []))) = creates [] + 1
   \<and> fst (environments_get (example_platform example_config ''Completed'' [])
          ''iGuard-env'' ''latest'' [''environment/iGuard-env'']) =
       Inr \<lparr>env_name = ''iGuard-env'', env_version = Some ''1'', env_description = None,
            env_build = None\<rparr>
   \<and> creates (trace (register_environment (example_platform example_config ''Completed'' [])
                        ''iGuard-env'' ''Dockerfile'' ([''environment/iGuard-env''], []))) =
       creates []
   \<and> load_component (example_platform example_config ''Completed'' []) ''train.yaml'' =
       Inr \<lparr>comp_name = ''train'', comp_version = Some ''1''\<rparr>
   \<and> fst (components_get (example_platform example_config ''Completed'' [])
            (comp_name \<lparr>comp_name = ''train'', comp_version = Some ''1''\<rparr>)
            (comp_version \<lparr>comp_name = ''train'', comp_version = Some ''1''\<rparr>) []) =
       Inl (Raised ''ResourceNotFoundError'')
   \<and> creates (trace (register_component (example_platform example_config ''Completed'' [])
                        ''train.yaml'' ([], []))) = creates [] + 1
   \<and> fst (components_get (example_platform example_config ''Completed'' [])
            (comp_name \<lparr>comp_name = ''train'', comp_version = Some ''1''\<rparr>)
            (comp_version \<lparr>comp_name = ''train'', comp_version = Some ''1''\<rparr>)
            [''component/train'']) =
       Inr \<lparr>comp_name = ''train'', comp_version = Some ''1''\<rparr>
   \<and> creates (trace (register_component (example_platform example_config ''Completed'' [])
                        ''train.yaml'' ([''component/train''], []))) = creates []"
proof -
  let ?p = "example_platform example_config ''Completed'' []"
  let ?c = "\<lparr>comp_name = ''train'', comp_version = Some ''1''\<rparr>"
  have h1: "fst (environments_get ?p ''iGuard-env'' ''latest'' []) =
              Inl (Raised ''ResourceNotFoundError'')"
    by (simp add: example_platform_def)
  have h2: "fst (environments_get ?p ''iGuard-env'' ''latest'' [''environment/iGuard-env'']) =
       Inr \<lparr>env_name = ''iGuard-env'', env_version = Some ''1'', env_description = None,
            env_build = None\<rparr>"
    by (simp add: example_platform_def)
  have h3: "load_component ?p ''train.yaml'' = Inr ?c"
    by (simp add: example_platform_def)
  have h4: "fst (components_get ?p (comp_name ?c) (comp_version ?c) []) =
              Inl (Raised ''ResourceNotFoundError'')"
    by (simp add: example_platform_def)
  have h5: "fst (components_get ?p (comp_name ?c) (comp_version ?c) [''component/train'']) =
              Inr ?c"
    by (simp add: example_platform_def)
  note missing = registrar_get_or_create[where p="?p" and name="''iGuard-env''" and s="[]" and tr="[]"
                      and dockerfile="''Dockerfile''" and yaml_path="''train.yaml''" and c="?c"]
  note found_env = registrar_get_or_create[where p="?p" and name="''iGuard-env''" and s="[''environment/iGuard-env'']"
                      and tr="[]" and dockerfile="''Dockerfile''"]
  note found_comp = registrar_get_or_create[where p="?p" and s="[''component/train'']" and tr="[]"
                      and yaml_path="''train.yaml''" and c="?c"]
  have a: "creates (trace (register_environment ?p ''iGuard-env'' ''Dockerfile'' ([], []))) =
             creates [] + 1"
    by (rule missing[THEN conjunct1, rule_format, OF h1, THEN conjunct2])
  have b: "creates (trace (register_environment ?p ''iGuard-env'' ''Dockerfile''
             ([''environment/iGuard-env''], []))) = creates []"
    by (rule found_env[THEN conjunct2, THEN conjunct1, rule_format, OF h2, THEN conjunct2])
  have c: "creates (trace (register_component ?p ''train.yaml'' ([], []))) = creates [] + 1"
    by (rule missing[THEN conjunct2, THEN conjunct2, rule_format, OF h3, THEN conjunct1,
                     rule_format, OF h4, THEN conjunct2])
  have d: "creates (trace (register_component ?p ''train.yaml'' ([''component/train''], []))) =
             creates []"
    by (rule found_comp[THEN conjunct2, THEN conjunct2, rule_format, OF h3, THEN conjunct2,
                        rule_format, OF h5, THEN conjunct2])
  show ?thesis by (intro conjI h1 h2 h3 h4 h5 a b c d)
qed




end
